theory Spec2Isabelle
  imports Complex_Main
begin

section \<open>JavaScript values\<close>

text \<open>
  A string is the list of its code units; the model covers the code units below 256, one
  \<^typ>\<open>char\<close> each. A number is an IEEE double: NaN, the two infinities, or a finite
  value. \<open>Fin v\<close> stands for the double nearest to the rational \<open>v\<close>: the rounding of
  the mantissa to 53 bits is not carried out, so two representations may stand for the
  same double, and the sign of zero is dropped. Overflow and underflow are carried out
  (\<open>roundMV\<close> below), so that \<open>Fin v\<close> with \<open>0 < v\<close> always stands for a double
  greater than zero.
\<close>

datatype jsnum = NaN | PosInf | NegInf | Fin rat

datatype jsval =
    JUndefined
  | JNull
  | JBool bool
  | JNum jsnum
  | JStr string
  | JArr "jsval list"
  | JObj "(string \<times> jsval) list"

text \<open>\<open>isNaN(num)\<close> and \<open>num > 0\<close> on numbers.\<close>

fun isNaN :: "jsnum \<Rightarrow> bool" where
  "isNaN NaN = True"
| "isNaN PosInf = False"
| "isNaN NegInf = False"
| "isNaN (Fin v) = False"

fun gt_zero :: "jsnum \<Rightarrow> bool" where
  "gt_zero NaN = False"
| "gt_zero PosInf = True"
| "gt_zero NegInf = False"
| "gt_zero (Fin v) = (0 < v)"

fun isFinite :: "jsnum \<Rightarrow> bool" where
  "isFinite NaN = False"
| "isFinite PosInf = False"
| "isFinite NegInf = False"
| "isFinite (Fin v) = True"

fun negate :: "jsnum \<Rightarrow> jsnum" where
  "negate NaN = NaN"
| "negate PosInf = NegInf"
| "negate NegInf = PosInf"
| "negate (Fin v) = Fin (- v)"

section \<open>\<open>Number(string)\<close>\<close>

text \<open>
  \<open>Number\<close> applied to a string is the language's StringToNumber: white space is trimmed
  at both ends; the empty string is 0; a binary, octal or hexadecimal integer literal
  takes no sign; a decimal literal is an optional sign and then \<open>Infinity\<close> or digits
  with an optional fraction and exponent; anything else is NaN. The mathematical value is
  then rounded to a double: to an infinity from \<open>2^1024 - 2^970\<close> on (half a unit
  above the largest double), to zero up to \<open>2^-1075\<close> (half the smallest double).
\<close>

definition isWhiteSpace :: "char \<Rightarrow> bool" where
  "isWhiteSpace c = ((of_char c :: nat) \<in> {9, 10, 11, 12, 13, 32, 160})"

definition trimString :: "string \<Rightarrow> string" where
  "trimString s = rev (dropWhile isWhiteSpace (rev (dropWhile isWhiteSpace s)))"

definition digitValue :: "char \<Rightarrow> nat option" where
  "digitValue c =
     (let n = (of_char c :: nat) in
      if 48 \<le> n \<and> n \<le> 57 then Some (n - 48)
      else if 97 \<le> n \<and> n \<le> 102 then Some (n - 87)
      else if 65 \<le> n \<and> n \<le> 70 then Some (n - 55)
      else None)"

definition isDigitIn :: "nat \<Rightarrow> char \<Rightarrow> bool" where
  "isDigitIn b c = (case digitValue c of Some d \<Rightarrow> d < b | None \<Rightarrow> False)"

definition digitsValue :: "nat \<Rightarrow> string \<Rightarrow> nat" where
  "digitsValue b ds =
     foldl (\<lambda>a c. a * b + (case digitValue c of Some d \<Rightarrow> d | None \<Rightarrow> 0)) 0 ds"

definition roundMV :: "rat \<Rightarrow> jsnum" where
  "roundMV v =
     (if 2 ^ 1024 - 2 ^ 970 \<le> v then PosInf
      else if v \<le> - (2 ^ 1024 - 2 ^ 970) then NegInf
      else if \<bar>v\<bar> \<le> 1 / 2 ^ 1075 then Fin 0
      else Fin v)"

definition scale10 :: "nat \<Rightarrow> int \<Rightarrow> rat" where
  "scale10 m e = (if 0 \<le> e then of_nat m * 10 ^ nat e else of_nat m / 10 ^ nat (- e))"

definition signedInteger :: "string \<Rightarrow> int option" where
  "signedInteger r =
     (let digits = (\<lambda>sg ds.
            if ds \<noteq> [] \<and> list_all (isDigitIn 10) ds
            then Some (sg * int (digitsValue 10 ds)) else None)
      in case r of
           [] \<Rightarrow> None
         | c # ds \<Rightarrow>
             if c = CHR ''+'' then digits 1 ds
             else if c = CHR ''-'' then digits (- 1) ds
             else digits 1 r)"

definition exponentPart :: "string \<Rightarrow> int option" where
  "exponentPart r =
     (case r of
        [] \<Rightarrow> Some 0
      | c # r' \<Rightarrow> if c = CHR ''e'' \<or> c = CHR ''E'' then signedInteger r' else None)"

definition strUnsignedDecimalLiteral :: "string \<Rightarrow> jsnum option" where
  "strUnsignedDecimalLiteral u =
     (if u = ''Infinity'' then Some PosInf
      else
        let ip = takeWhile (isDigitIn 10) u; r1 = dropWhile (isDigitIn 10) u in
        case r1 of
          c # r2 \<Rightarrow>
            if c = CHR ''.'' then
              (let fp = takeWhile (isDigitIn 10) r2; r3 = dropWhile (isDigitIn 10) r2 in
               if ip = [] \<and> fp = [] then None
               else (case exponentPart r3 of
                       None \<Rightarrow> None
                     | Some e \<Rightarrow>
                         Some (roundMV (scale10 (digitsValue 10 (ip @ fp))
                                                (e - int (length fp))))))
            else if ip = [] then None
            else (case exponentPart r1 of
                    None \<Rightarrow> None
                  | Some e \<Rightarrow> Some (roundMV (scale10 (digitsValue 10 ip) e)))
        | [] \<Rightarrow> if ip = [] then None else Some (roundMV (of_nat (digitsValue 10 ip))))"

definition strDecimalLiteral :: "string \<Rightarrow> jsnum option" where
  "strDecimalLiteral t =
     (case t of
        [] \<Rightarrow> None
      | c # u \<Rightarrow>
          if c = CHR ''+'' then strUnsignedDecimalLiteral u
          else if c = CHR ''-'' then map_option negate (strUnsignedDecimalLiteral u)
          else strUnsignedDecimalLiteral t)"

definition nonDecimalIntegerLiteral :: "string \<Rightarrow> nat option" where
  "nonDecimalIntegerLiteral t =
     (case t of
        z # x # ds \<Rightarrow>
          if z = CHR ''0'' \<and> ds \<noteq> [] then
            (if (x = CHR ''x'' \<or> x = CHR ''X'') \<and> list_all (isDigitIn 16) ds
               then Some (digitsValue 16 ds)
             else if (x = CHR ''o'' \<or> x = CHR ''O'') \<and> list_all (isDigitIn 8) ds
               then Some (digitsValue 8 ds)
             else if (x = CHR ''b'' \<or> x = CHR ''B'') \<and> list_all (isDigitIn 2) ds
               then Some (digitsValue 2 ds)
             else None)
          else None
      | _ \<Rightarrow> None)"

definition Number :: "string \<Rightarrow> jsnum" where
  "Number s =
     (let t = trimString s in
      if t = [] then Fin 0
      else case nonDecimalIntegerLiteral t of
             Some n \<Rightarrow> roundMV (of_nat n)
           | None \<Rightarrow> (case strDecimalLiteral t of Some v \<Rightarrow> v | None \<Rightarrow> NaN))"

section \<open>Validation helpers\<close>

text \<open>
  \<open>validateStockTicker\<close> tests the pattern \<open>/^[A-Z]{1,5}$/\<close>: the whole string is one
  to five letters \<open>A\<close> to \<open>Z\<close> (without the \<open>m\<close> flag, \<open>$\<close> matches at the end of the
  input only). \<open>validatePositiveNumber\<close> is \<open>!isNaN(num) && num > 0\<close> for
  \<open>num = Number(number)\<close>.
\<close>

definition validateStockTicker :: "string \<Rightarrow> bool" where
  "validateStockTicker ticker =
     (1 \<le> length ticker \<and> length ticker \<le> 5 \<and>
      list_all (\<lambda>c. 65 \<le> (of_char c :: nat) \<and> (of_char c :: nat) \<le> 90) ticker)"

definition validatePositiveNumber :: "string \<Rightarrow> bool" where
  "validatePositiveNumber number = (let num = Number number in \<not> isNaN num \<and> gt_zero num)"

section \<open>Remote calls, timers and the state shared by both pages\<close>

text \<open>
  The outcome of \<open>await fetch(...)\<close> followed by the reads the code makes of the
  response: the promise rejects with an error of some message; or a response arrives whose
  \<open>ok\<close> is false or true, and \<open>res.json()\<close> then rejects with a message (\<open>Inl\<close>) or
  yields the parsed body (\<open>Inr\<close>). A body is taken to have the shape the interface gives
  it, and the member the code reads is given directly: the array of items of
  \<open>GET /items\<close>, the \<open>portfolio_value\<close> member of \<open>GET /portfolio\<close> (\<open>JUndefined\<close>
  when absent), the \<open>error\<close> member of a failed computation (\<open>None\<close> when absent).
  A body the code does not read, or only logs, is a \<^typ>\<open>jsval\<close>.
\<close>

datatype ('e, 'a) fetch_result =
    Rejected string
  | NotOk "string + 'e"
  | Ok "string + 'a"

record item =
  item_id :: nat
  ticker :: string

text \<open>
  The requests handed to \<open>fetch\<close>, in order. A request with a body holds the values put
  into the object given to \<open>JSON.stringify\<close>.
\<close>

datatype request =
    GetPortfolio
  | GetItems
  | PostItems string
  | DeleteItems nat
  | PostPortfolio jsnum
  | PostCalculatePortfolio jsval "string list"

text \<open>The callbacks given to \<open>setTimeout\<close>: each sets one message to the empty string.\<close>

datatype callback = ClearErrorMessage | ClearTickerError | ClearPortfolioError

text \<open>
  Both pages hold \<open>items\<close>. Beside the component's state the record keeps the clock in
  milliseconds, the timers still pending (deadline and callback, in the order they were
  set) and the requests made so far. A handler runs at one instant of the clock: the time
  its awaits take is not modelled.
\<close>

record page =
  items :: "item list"
  now :: nat
  timers :: "(nat \<times> callback) list"
  requests :: "request list"

definition setTimeout :: "callback \<Rightarrow> nat \<Rightarrow> 'a page_scheme \<Rightarrow> 'a page_scheme" where
  "setTimeout cb delay s = s\<lparr>timers := timers s @ [(now s + delay, cb)]\<rparr>"

definition fetch :: "request \<Rightarrow> 'a page_scheme \<Rightarrow> 'a page_scheme" where
  "fetch r s = s\<lparr>requests := requests s @ [r]\<rparr>"

text \<open>
  \<open>elapse run d\<close> lets \<open>d\<close> milliseconds pass: every timer whose deadline is reached
  runs its callback and is removed. No timer is ever removed otherwise: the source never
  calls \<open>clearTimeout\<close>. All delays are 2000, so the order in which timers were set is
  the order of their deadlines.
\<close>

definition elapse ::
  "(callback \<Rightarrow> 'a page_scheme \<Rightarrow> 'a page_scheme) \<Rightarrow> nat \<Rightarrow> 'a page_scheme \<Rightarrow> 'a page_scheme" where
  "elapse run d s =
     (let t = now s + d;
          due = filter (\<lambda>(deadline, cb). deadline \<le> t) (timers s);
          pending = filter (\<lambda>(deadline, cb). \<not> deadline \<le> t) (timers s)
      in fold run (map snd due) (s\<lparr>now := t, timers := pending\<rparr>))"

section \<open>The allocation page (\<open>Portfolio\<close>)\<close>

record portfolio_page = page +
  portfolioValue :: jsval
  allocationResults :: jsval
  errorMessage :: string

definition Portfolio :: "nat \<Rightarrow> portfolio_page" where
  "Portfolio t =
     \<lparr>items = [], now = t, timers = [], requests = [],
      portfolioValue = JNull, allocationResults = JNull, errorMessage = ''''\<rparr>"

text \<open>
  Every error path of the page ends in the same two statements:
  \<open>setErrorMessage(m); setTimeout(() => { setErrorMessage(""); }, 2000);\<close>
\<close>

definition showErrorMessage :: "string \<Rightarrow> portfolio_page \<Rightarrow> portfolio_page" where
  "showErrorMessage m s = setTimeout ClearErrorMessage 2000 (s\<lparr>errorMessage := m\<rparr>)"

fun run_Portfolio :: "callback \<Rightarrow> portfolio_page \<Rightarrow> portfolio_page" where
  "run_Portfolio ClearErrorMessage s = s\<lparr>errorMessage := ''''\<rparr>"
| "run_Portfolio ClearTickerError s = s"
| "run_Portfolio ClearPortfolioError s = s"

definition fetchPortfolioValue_Portfolio ::
  "(jsval, jsval) fetch_result \<Rightarrow> portfolio_page \<Rightarrow> portfolio_page" where
  "fetchPortfolioValue_Portfolio res s =
     (let s1 = fetch GetPortfolio s;
          catch = showErrorMessage ''Error fetching portfolio value'' s1
      in case res of
           Rejected msg \<Rightarrow> catch
         | NotOk body \<Rightarrow> catch
         | Ok body \<Rightarrow>
             (case body of
                Inl msg \<Rightarrow> catch
              | Inr portfolio_value \<Rightarrow> s1\<lparr>portfolioValue := portfolio_value\<rparr>))"

definition fetchItems_Portfolio ::
  "(jsval, item list) fetch_result \<Rightarrow> portfolio_page \<Rightarrow> portfolio_page" where
  "fetchItems_Portfolio res s =
     (let s1 = fetch GetItems s;
          catch = showErrorMessage ''Error fetching items'' s1
      in case res of
           Rejected msg \<Rightarrow> catch
         | NotOk body \<Rightarrow> catch
         | Ok body \<Rightarrow>
             (case body of
                Inl msg \<Rightarrow> catch
              | Inr data \<Rightarrow> s1\<lparr>items := data\<rparr>))"

text \<open>
  \<open>handleCalculate\<close>: the guard returns before any request; otherwise the request is
  made, and every failure is thrown to the one \<open>catch\<close>, which shows \<open>error.message\<close>.
  A response that is not ok throws \<open>new Error(errorData.error || "Failed to calculate
  portfolio")\<close>, and the empty string is falsy.
\<close>

definition handleCalculate ::
  "(string option, jsval) fetch_result \<Rightarrow> portfolio_page \<Rightarrow> portfolio_page" where
  "handleCalculate res s =
     (if portfolioValue s = JNull \<or> length (items s) = 0 then
        showErrorMessage ''Ensure portfolio value and stock tickers are set.'' s
      else
        let s1 = fetch (PostCalculatePortfolio (portfolioValue s) (map ticker (items s))) s;
            catch = (\<lambda>message. showErrorMessage message s1)
        in case res of
             Rejected msg \<Rightarrow> catch msg
           | NotOk body \<Rightarrow>
               (case body of
                  Inl msg \<Rightarrow> catch msg
                | Inr error \<Rightarrow>
                    catch (case error of
                             None \<Rightarrow> ''Failed to calculate portfolio''
                           | Some e \<Rightarrow> if e \<noteq> '''' then e else ''Failed to calculate portfolio''))
           | Ok body \<Rightarrow>
               (case body of
                  Inl msg \<Rightarrow> catch msg
                | Inr data \<Rightarrow> s1\<lparr>allocationResults := data\<rparr>))"

section \<open>The configuration page (\<open>Home\<close>)\<close>

text \<open>
  The state \<open>portfolioValue\<close> of this page is the text of the input field; it is named
  \<open>portfolioValue_input\<close> here, apart from the fetched value of the other page.
\<close>

record home_page = page +
  tickerInput :: string
  portfolioValue_input :: string
  displayedPortfolioValue :: jsval
  tickerError :: string
  portfolioError :: string

definition Home :: "nat \<Rightarrow> home_page" where
  "Home t =
     \<lparr>items = [], now = t, timers = [], requests = [],
      tickerInput = '''', portfolioValue_input = '''', displayedPortfolioValue = JNull,
      tickerError = '''', portfolioError = ''''\<rparr>"

text \<open>
  \<open>setTickerError(m); setTimeout(() => { setTickerError(""); }, 2000);\<close> and the same
  for \<open>setPortfolioError\<close>.
\<close>

definition showTickerError :: "string \<Rightarrow> home_page \<Rightarrow> home_page" where
  "showTickerError m s = setTimeout ClearTickerError 2000 (s\<lparr>tickerError := m\<rparr>)"

definition showPortfolioError :: "string \<Rightarrow> home_page \<Rightarrow> home_page" where
  "showPortfolioError m s = setTimeout ClearPortfolioError 2000 (s\<lparr>portfolioError := m\<rparr>)"

fun run_Home :: "callback \<Rightarrow> home_page \<Rightarrow> home_page" where
  "run_Home ClearTickerError s = s\<lparr>tickerError := ''''\<rparr>"
| "run_Home ClearPortfolioError s = s\<lparr>portfolioError := ''''\<rparr>"
| "run_Home ClearErrorMessage s = s"

definition fetchItems_Home ::
  "(jsval, item list) fetch_result \<Rightarrow> home_page \<Rightarrow> home_page" where
  "fetchItems_Home res s =
     (let s1 = fetch GetItems s;
          catch = showTickerError ''Error fetching items'' s1
      in case res of
           Rejected msg \<Rightarrow> catch
         | NotOk body \<Rightarrow> catch
         | Ok body \<Rightarrow>
             (case body of
                Inl msg \<Rightarrow> catch
              | Inr data \<Rightarrow> s1\<lparr>items := data\<rparr>))"

definition fetchPortfolioValue_Home ::
  "(jsval, jsval) fetch_result \<Rightarrow> home_page \<Rightarrow> home_page" where
  "fetchPortfolioValue_Home res s =
     (let s1 = fetch GetPortfolio s;
          catch = showPortfolioError ''Error fetching portfolio value'' s1
      in case res of
           Rejected msg \<Rightarrow> catch
         | NotOk body \<Rightarrow> catch
         | Ok body \<Rightarrow>
             (case body of
                Inl msg \<Rightarrow> catch
              | Inr portfolio_value \<Rightarrow> s1\<lparr>displayedPortfolioValue := portfolio_value\<rparr>))"

text \<open>
  \<open>handleTickerSubmit\<close>: \<open>list\<close> is the outcome of the \<open>fetchItems()\<close> that follows an
  ok response. A response that is not ok has its body read before the message is set, so
  a body that does not parse ends in the \<open>catch\<close>.
\<close>

definition handleTickerSubmit ::
  "(jsval, jsval) fetch_result \<Rightarrow> (jsval, item list) fetch_result \<Rightarrow> home_page \<Rightarrow> home_page" where
  "handleTickerSubmit res list s =
     (if \<not> validateStockTicker (tickerInput s) then
        showTickerError ''Must put in a valid stock ticker (1-5 uppercase letters)'' s
      else
        let s1 = fetch (PostItems (tickerInput s)) s;
            catch = showTickerError ''Error adding item'' s1
        in case res of
             Rejected msg \<Rightarrow> catch
           | Ok body \<Rightarrow> fetchItems_Home list (s1\<lparr>tickerInput := ''''\<rparr>)
           | NotOk body \<Rightarrow>
               (case body of
                  Inl msg \<Rightarrow> catch
                | Inr errorData \<Rightarrow> showTickerError ''Failed to add item'' s1))"

definition handlePortfolioSubmit ::
  "(jsval, jsval) fetch_result \<Rightarrow> home_page \<Rightarrow> home_page" where
  "handlePortfolioSubmit res s =
     (if \<not> validatePositiveNumber (portfolioValue_input s) then
        showPortfolioError ''Portfolio value must be a positive number'' s
      else
        let s1 = fetch (PostPortfolio (Number (portfolioValue_input s))) s;
            catch = showPortfolioError ''Error setting portfolio value'' s1
        in case res of
             Rejected msg \<Rightarrow> catch
           | Ok body \<Rightarrow>
               s1\<lparr>displayedPortfolioValue := JNum (Number (portfolioValue_input s)),
                  portfolioValue_input := ''''\<rparr>
           | NotOk body \<Rightarrow>
               (case body of
                  Inl msg \<Rightarrow> catch
                | Inr errorData \<Rightarrow> showPortfolioError ''Failed to set portfolio value'' s1))"

definition handleDelete ::
  "nat \<Rightarrow> (jsval, jsval) fetch_result \<Rightarrow> (jsval, item list) fetch_result \<Rightarrow> home_page \<Rightarrow> home_page" where
  "handleDelete i res list s =
     (let s1 = fetch (DeleteItems i) s;
          catch = showTickerError ''Error deleting item'' s1
      in case res of
           Rejected msg \<Rightarrow> catch
         | Ok body \<Rightarrow> fetchItems_Home list s1
         | NotOk body \<Rightarrow>
             (case body of
                Inl msg \<Rightarrow> catch
              | Inr errorData \<Rightarrow> showTickerError ''Failed to delete item'' s1))"

section \<open>Notification channels\<close>

text \<open>
  A channel is what the user sees of a message and what will still happen to it: the
  message, and the deadlines of the pending timers that clear it. The allocation page has
  one channel, \<open>errorMessage\<close>; the configuration page has two, \<open>tickerError\<close> and
  \<open>portfolioError\<close>. \<open>expire t\<close> is a channel left alone until time \<open>t\<close>.
\<close>

definition pending :: "callback \<Rightarrow> 'a page_scheme \<Rightarrow> nat list" where
  "pending cb s = map fst (filter (\<lambda>(deadline, c). c = cb) (timers s))"

definition error_channel :: "portfolio_page \<Rightarrow> string \<times> nat list" where
  "error_channel s = (errorMessage s, pending ClearErrorMessage s)"

definition ticker_channel :: "home_page \<Rightarrow> string \<times> nat list" where
  "ticker_channel s = (tickerError s, pending ClearTickerError s)"

definition portfolio_channel :: "home_page \<Rightarrow> string \<times> nat list" where
  "portfolio_channel s = (portfolioError s, pending ClearPortfolioError s)"

definition expire :: "nat \<Rightarrow> string \<times> nat list \<Rightarrow> string \<times> nat list" where
  "expire t ch =
     (if list_ex (\<lambda>deadline. deadline \<le> t) (snd ch) then '''' else fst ch,
      filter (\<lambda>deadline. \<not> deadline \<le> t) (snd ch))"

text \<open>
  \<open>after_second T M2 d\<close> describes a channel \<open>d\<close> milliseconds after the second of two
  notifications, the first shown at time \<open>T\<close> and the second, with message \<open>M2\<close>, at
  \<open>T + 500\<close>, when no timer is ever cancelled: until \<open>T + 2000\<close> the second message
  with both timers pending; from \<open>T + 2000\<close>, when the first timer has fired, no message
  and the second timer still pending; from \<open>T + 2500\<close>, when the second timer has fired
  on the empty message, no message and no timer.
\<close>

definition after_second :: "nat \<Rightarrow> string \<Rightarrow> nat \<Rightarrow> string \<times> nat list" where
  "after_second T M2 d =
     (if d < 1500 then (M2, [T + 2000, T + 2500])
      else if d < 2000 then ('''', [T + 2500])
      else ('''', []))"

text \<open>
  \<open>kept_or_armed t before after\<close>: an operation run at time \<open>t\<close> has left the channel as
  it was, or has added one timer of 2000 ms behind the pending ones, removing none.
\<close>

definition kept_or_armed :: "nat \<Rightarrow> string \<times> nat list \<Rightarrow> string \<times> nat list \<Rightarrow> bool" where
  "kept_or_armed t before after \<longleftrightarrow> after = before \<or> snd after = snd before @ [t + 2000]"

section \<open>Unfolding and evaluation\<close>

lemmas show_defs = showErrorMessage_def showTickerError_def showPortfolioError_def
  setTimeout_def fetch_def Let_def

lemmas channel_defs = ticker_channel_def portfolio_channel_def pending_def

lemmas Number_eval = Number_def trimString_def isWhiteSpace_def nonDecimalIntegerLiteral_def
  strDecimalLiteral_def strUnsignedDecimalLiteral_def exponentPart_def signedInteger_def
  isDigitIn_def digitValue_def digitsValue_def roundMV_def scale10_def

section \<open>Timers firing\<close>

lemma fold_run_Portfolio:
  "fold run_Portfolio cbs s =
     (if ClearErrorMessage \<in> set cbs then s\<lparr>errorMessage := ''''\<rparr> else s)"
proof (induction cbs arbitrary: s)
  case Nil
  show ?case by simp
next
  case (Cons cb cbs)
  show ?case by (cases cb) (simp_all add: Cons.IH)
qed

lemma elapse_Portfolio:
  "elapse run_Portfolio d s =
     (let s' = s\<lparr>now := now s + d,
                  timers := filter (\<lambda>(deadline, cb). \<not> deadline \<le> now s + d) (timers s)\<rparr>
      in if \<exists>deadline. (deadline, ClearErrorMessage) \<in> set (timers s) \<and> deadline \<le> now s + d
         then s'\<lparr>errorMessage := ''''\<rparr> else s')"
  by (auto simp add: elapse_def Let_def fold_run_Portfolio image_iff)

lemma fold_run_Home_tickerError:
  "tickerError (fold run_Home cbs s) =
     (if ClearTickerError \<in> set cbs then '''' else tickerError s)"
proof (induction cbs arbitrary: s)
  case Nil
  show ?case by simp
next
  case (Cons cb cbs)
  show ?case by (cases cb) (simp_all add: Cons.IH)
qed

lemma fold_run_Home_portfolioError:
  "portfolioError (fold run_Home cbs s) =
     (if ClearPortfolioError \<in> set cbs then '''' else portfolioError s)"
proof (induction cbs arbitrary: s)
  case Nil
  show ?case by simp
next
  case (Cons cb cbs)
  show ?case by (cases cb) (simp_all add: Cons.IH)
qed

lemma fold_run_Home_page:
  "timers (fold run_Home cbs s) = timers s \<and> now (fold run_Home cbs s) = now s"
proof (induction cbs arbitrary: s)
  case Nil
  show ?case by simp
next
  case (Cons cb cbs)
  show ?case by (cases cb) (simp_all add: Cons.IH)
qed

lemma elapse_Home_timers:
  "timers (elapse run_Home d s) =
     filter (\<lambda>(deadline, cb). \<not> deadline \<le> now s + d) (timers s)"
  "now (elapse run_Home d s) = now s + d"
  by (simp_all add: elapse_def Let_def fold_run_Home_page)

lemma pending_elapse_Home:
  "pending cb (elapse run_Home d s) =
     filter (\<lambda>deadline. \<not> deadline \<le> now s + d) (pending cb s)"
  by (simp add: pending_def elapse_Home_timers filter_map comp_def case_prod_unfold conj_commute)

lemma elapse_Home_tickerError:
  "tickerError (elapse run_Home d s) =
     (if list_ex (\<lambda>deadline. deadline \<le> now s + d) (pending ClearTickerError s) then ''''
      else tickerError s)"
  by (auto simp add: elapse_def Let_def fold_run_Home_tickerError pending_def image_iff
        list_ex_iff)

lemma elapse_Home_portfolioError:
  "portfolioError (elapse run_Home d s) =
     (if list_ex (\<lambda>deadline. deadline \<le> now s + d) (pending ClearPortfolioError s) then ''''
      else portfolioError s)"
  by (auto simp add: elapse_def Let_def fold_run_Home_portfolioError pending_def image_iff
        list_ex_iff)

lemma elapse_Home_channel:
  "ticker_channel (elapse run_Home d s) = expire (now s + d) (ticker_channel s)"
  "portfolio_channel (elapse run_Home d s) = expire (now s + d) (portfolio_channel s)"
  by (simp_all add: ticker_channel_def portfolio_channel_def expire_def pending_elapse_Home
        elapse_Home_tickerError elapse_Home_portfolioError)

section \<open>What each operation leaves alone\<close>

lemma showTickerError_frame [simp]:
  "portfolio_channel (showTickerError m s) = portfolio_channel s"
  by (simp add: channel_defs show_defs)

lemma showPortfolioError_frame [simp]:
  "ticker_channel (showPortfolioError m s) = ticker_channel s"
  by (simp add: channel_defs show_defs)

lemma fetch_frame [simp]:
  "portfolio_channel (fetch r s) = portfolio_channel s"
  "ticker_channel (fetch r s) = ticker_channel s"
  by (simp_all add: channel_defs fetch_def)

lemma fetchItems_Home_frame [simp]:
  "portfolio_channel (fetchItems_Home list s) = portfolio_channel s"
proof -
  have "portfolio_channel ((fetch GetItems s)\<lparr>items := data\<rparr>) = portfolio_channel s" for data
    by (simp add: channel_defs fetch_def)
  then show ?thesis
    by (simp add: fetchItems_Home_def Let_def split: fetch_result.split sum.split)
qed

lemma fetchPortfolioValue_Home_frame [simp]:
  "ticker_channel (fetchPortfolioValue_Home res s) = ticker_channel s"
proof -
  have "ticker_channel ((fetch GetPortfolio s)\<lparr>displayedPortfolioValue := v\<rparr>) = ticker_channel s"
    for v
    by (simp add: channel_defs fetch_def)
  then show ?thesis
    by (simp add: fetchPortfolioValue_Home_def Let_def split: fetch_result.split sum.split)
qed

lemma handleTickerSubmit_frame [simp]:
  "portfolio_channel (handleTickerSubmit res list s) = portfolio_channel s"
proof -
  have "portfolio_channel ((fetch r s)\<lparr>tickerInput := x\<rparr>) = portfolio_channel s" for r x
    by (simp add: channel_defs fetch_def)
  then show ?thesis
    by (simp add: handleTickerSubmit_def Let_def split: fetch_result.split sum.split)
qed

lemma handleDelete_frame [simp]:
  "portfolio_channel (handleDelete i res list s) = portfolio_channel s"
  by (simp add: handleDelete_def Let_def split: fetch_result.split sum.split)

lemma handlePortfolioSubmit_frame [simp]:
  "ticker_channel (handlePortfolioSubmit res s) = ticker_channel s"
proof -
  have "ticker_channel ((fetch r s)\<lparr>displayedPortfolioValue := v, portfolioValue_input := x\<rparr>)
          = ticker_channel s" for r v x
    by (simp add: channel_defs fetch_def)
  then show ?thesis
    by (simp add: handlePortfolioSubmit_def Let_def split: fetch_result.split sum.split)
qed

lemma run_Home_frame:
  "portfolio_channel (run_Home ClearTickerError s) = portfolio_channel s"
  "ticker_channel (run_Home ClearPortfolioError s) = ticker_channel s"
  by (simp_all add: channel_defs)

section \<open>Showing a message and letting time pass, channel by channel\<close>

lemma now_show [simp]:
  "now (showErrorMessage m a) = now a"
  "now (showTickerError m c) = now c"
  "now (showPortfolioError m c) = now c"
  "now (fetch r s) = now s"
  by (simp_all add: show_defs)

lemma pending_fetch [simp]:
  "pending cb (fetch r s) = pending cb s"
  by (simp add: pending_def fetch_def)

lemma error_channel_fetch [simp]:
  "error_channel (fetch r a) = error_channel a"
  by (simp add: error_channel_def pending_def fetch_def)

lemma show_channel:
  "error_channel (showErrorMessage m a) = (m, pending ClearErrorMessage a @ [now a + 2000])"
  "ticker_channel (showTickerError m c) = (m, pending ClearTickerError c @ [now c + 2000])"
  "portfolio_channel (showPortfolioError m c) =
     (m, pending ClearPortfolioError c @ [now c + 2000])"
  by (simp_all add: error_channel_def channel_defs show_defs)

lemma pending_show:
  "pending ClearErrorMessage (showErrorMessage m a) = pending ClearErrorMessage a @ [now a + 2000]"
  "pending ClearTickerError (showTickerError m c) = pending ClearTickerError c @ [now c + 2000]"
  "pending ClearPortfolioError (showPortfolioError m c) =
     pending ClearPortfolioError c @ [now c + 2000]"
  by (simp_all add: pending_def show_defs)

lemma elapse_Portfolio_page:
  "now (elapse run_Portfolio d s) = now s + d"
  "timers (elapse run_Portfolio d s) =
     filter (\<lambda>(deadline, cb). \<not> deadline \<le> now s + d) (timers s)"
  "items (elapse run_Portfolio d s) = items s"
  "portfolioValue (elapse run_Portfolio d s) = portfolioValue s"
  by (simp_all add: elapse_Portfolio Let_def)

lemma pending_elapse_Portfolio:
  "pending cb (elapse run_Portfolio d s) =
     filter (\<lambda>deadline. \<not> deadline \<le> now s + d) (pending cb s)"
  by (simp add: pending_def elapse_Portfolio_page filter_map comp_def case_prod_unfold
        conj_commute)

lemma elapse_Portfolio_errorMessage:
  "errorMessage (elapse run_Portfolio d s) =
     (if list_ex (\<lambda>deadline. deadline \<le> now s + d) (pending ClearErrorMessage s) then ''''
      else errorMessage s)"
  by (auto simp add: elapse_Portfolio Let_def pending_def image_iff list_ex_iff)

lemma elapse_Portfolio_channel:
  "error_channel (elapse run_Portfolio d s) = expire (now s + d) (error_channel s)"
  by (simp add: error_channel_def expire_def pending_elapse_Portfolio
        elapse_Portfolio_errorMessage)

section \<open>The error paths of the handlers\<close>

lemma handleCalculate_Rejected:
  assumes "portfolioValue s \<noteq> JNull" and "items s \<noteq> []"
  shows "handleCalculate (Rejected m) s =
           showErrorMessage m
             (fetch (PostCalculatePortfolio (portfolioValue s) (map ticker (items s))) s)"
  using assms by (simp add: handleCalculate_def Let_def)

lemma handleTickerSubmit_not_valid:
  assumes "\<not> validateStockTicker (tickerInput s)"
  shows "handleTickerSubmit res list s =
           showTickerError ''Must put in a valid stock ticker (1-5 uppercase letters)'' s"
  using assms by (simp add: handleTickerSubmit_def)

lemma handleDelete_Rejected:
  "handleDelete i (Rejected m) list s =
     showTickerError ''Error deleting item'' (fetch (DeleteItems i) s)"
  by (simp add: handleDelete_def Let_def)

lemma handlePortfolioSubmit_not_valid:
  assumes "\<not> validatePositiveNumber (portfolioValue_input s)"
  shows "handlePortfolioSubmit res s =
           showPortfolioError ''Portfolio value must be a positive number'' s"
  using assms by (simp add: handlePortfolioSubmit_def)

lemma fetchPortfolioValue_Home_Rejected:
  "fetchPortfolioValue_Home (Rejected m) s =
     showPortfolioError ''Error fetching portfolio value'' (fetch GetPortfolio s)"
  by (simp add: fetchPortfolioValue_Home_def Let_def)

text \<open>No handler removes a timer: each leaves a channel as it was or arms it once.\<close>

lemma kept_or_armed_Portfolio:
  "kept_or_armed (now a) (error_channel a) (error_channel (fetchPortfolioValue_Portfolio res a))"
  "kept_or_armed (now a) (error_channel a) (error_channel (fetchItems_Portfolio list a))"
  "kept_or_armed (now a) (error_channel a) (error_channel (handleCalculate calc a))"
  by (simp_all add: kept_or_armed_def error_channel_def pending_def
        fetchPortfolioValue_Portfolio_def fetchItems_Portfolio_def handleCalculate_def show_defs
        split: fetch_result.split sum.split option.split)

lemma kept_or_armed_Home_ticker:
  "kept_or_armed (now c) (ticker_channel c) (ticker_channel (fetchItems_Home list c))"
  "kept_or_armed (now c) (ticker_channel c) (ticker_channel (handleTickerSubmit res list c))"
  "kept_or_armed (now c) (ticker_channel c) (ticker_channel (handleDelete i res list c))"
  by (simp_all add: kept_or_armed_def channel_defs
        fetchItems_Home_def handleTickerSubmit_def handleDelete_def show_defs
        split: fetch_result.split sum.split)

lemma kept_or_armed_Home_portfolio:
  "kept_or_armed (now c) (portfolio_channel c) (portfolio_channel (fetchPortfolioValue_Home res c))"
  "kept_or_armed (now c) (portfolio_channel c) (portfolio_channel (handlePortfolioSubmit res c))"
  by (simp_all add: kept_or_armed_def channel_defs
        fetchPortfolioValue_Home_def handlePortfolioSubmit_def show_defs
        split: fetch_result.split sum.split)

section \<open>The claims\<close>

subsection \<open>C1: a newer notification and the older timer\<close>

text \<open>
  C1 says that showing a second message cancels the first message's pending expiry, so
  that the second message, shown 500 ms after the first, stays for its own 2000 ms. The
  code keeps no handle of a timer and never cancels one. Here a computation fails with
  the message \<open>first\<close> at time 0 and again with \<open>second\<close> at time 500: at time 2000 the
  first timer has fired and the second message is gone.
\<close>

theorem second_message_cleared_by_first_timer:
  "errorMessage
     (elapse run_Portfolio 1500
        (handleCalculate (NotOk (Inr (Some ''second'')))
           (elapse run_Portfolio 500
              (handleCalculate (NotOk (Inr (Some ''first'')))
                 ((Portfolio 0)\<lparr>items := [\<lparr>item_id = 1, ticker = ''AAPL''\<rparr>],
                                   portfolioValue := JNum (Fin 10000)\<rparr>))))) = ''''"
  by (simp add: elapse_def handleCalculate_def show_defs Portfolio_def)

text \<open>
  C1, as the code has it: a new message replaces the one displayed and cancels nothing.
  This holds on each of the three channels (\<open>errorMessage\<close> of the allocation page,
  \<open>tickerError\<close> and \<open>portfolioError\<close> of the configuration page) and for all
  messages \<open>M1\<close> and \<open>M2\<close>. Let \<open>M1\<close> be shown at time \<open>T\<close> and \<open>M2\<close> on the same
  channel at \<open>T + 500\<close>.

  In every state, the channel then holds \<open>M2\<close> and, behind the timers that were already
  pending, the two timers with deadlines \<open>T + 2000\<close> and \<open>T + 2500\<close>, and it changes
  from then on only as these timers expire.

  With no older timer pending on the channel, it is from \<open>T + 500\<close> on as
  \<open>after_second\<close> says: it shows \<open>M2\<close> or nothing, never \<open>M1\<close>; \<open>M2\<close> is cleared
  at \<open>T + 2000\<close>, when the first timer fires; the second timer stays pending until it
  fires at \<open>T + 2500\<close> on the empty message. The same holds when the two notifications
  come from handlers: two computations whose requests were rejected with messages \<open>M1\<close>
  and \<open>M2\<close>; a ticker that fails validation and then a delete whose request was
  rejected; a portfolio value that fails validation and then a fetch of the portfolio
  value that was rejected.

  And no handler, whatever the outcome of its requests, removes a pending timer: each
  leaves a channel as it was, or adds one timer of 2000 ms behind the pending ones.
\<close>

theorem notification_expiry_not_cancelled:
  assumes "pending ClearErrorMessage a = []"
    and "pending ClearTickerError c = []"
    and "pending ClearPortfolioError c' = []"
    and "pending ClearErrorMessage s = []" and "portfolioValue s \<noteq> JNull" and "items s \<noteq> []"
    and "pending ClearTickerError h = []" and "\<not> validateStockTicker (tickerInput h)"
    and "pending ClearPortfolioError g = []"
    and "\<not> validatePositiveNumber (portfolioValue_input g)"
  shows
    "error_channel
       (elapse run_Portfolio d
          (showErrorMessage M2 (elapse run_Portfolio 500 (showErrorMessage M1 x))))
       = expire (now x + 500 + d)
           (M2, filter (\<lambda>deadline. \<not> deadline \<le> now x + 500) (pending ClearErrorMessage x)
                  @ [now x + 2000, now x + 2500]) \<and>
     ticker_channel
       (elapse run_Home d
          (showTickerError M2 (elapse run_Home 500 (showTickerError M1 y))))
       = expire (now y + 500 + d)
           (M2, filter (\<lambda>deadline. \<not> deadline \<le> now y + 500) (pending ClearTickerError y)
                  @ [now y + 2000, now y + 2500]) \<and>
     portfolio_channel
       (elapse run_Home d
          (showPortfolioError M2 (elapse run_Home 500 (showPortfolioError M1 y))))
       = expire (now y + 500 + d)
           (M2, filter (\<lambda>deadline. \<not> deadline \<le> now y + 500) (pending ClearPortfolioError y)
                  @ [now y + 2000, now y + 2500]) \<and>
     error_channel
       (elapse run_Portfolio d
          (showErrorMessage M2 (elapse run_Portfolio 500 (showErrorMessage M1 a))))
       = after_second (now a) M2 d \<and>
     ticker_channel
       (elapse run_Home d
          (showTickerError M2 (elapse run_Home 500 (showTickerError M1 c))))
       = after_second (now c) M2 d \<and>
     portfolio_channel
       (elapse run_Home d
          (showPortfolioError M2 (elapse run_Home 500 (showPortfolioError M1 c'))))
       = after_second (now c') M2 d \<and>
     error_channel
       (elapse run_Portfolio d
          (handleCalculate (Rejected M2)
             (elapse run_Portfolio 500 (handleCalculate (Rejected M1) s))))
       = after_second (now s) M2 d \<and>
     ticker_channel
       (elapse run_Home d
          (handleDelete i (Rejected m) list
             (elapse run_Home 500 (handleTickerSubmit res list' h))))
       = after_second (now h) ''Error deleting item'' d \<and>
     portfolio_channel
       (elapse run_Home d
          (fetchPortfolioValue_Home (Rejected m')
             (elapse run_Home 500 (handlePortfolioSubmit res' g))))
       = after_second (now g) ''Error fetching portfolio value'' d \<and>
     kept_or_armed (now x) (error_channel x)
       (error_channel (fetchPortfolioValue_Portfolio pv x)) \<and>
     kept_or_armed (now x) (error_channel x) (error_channel (fetchItems_Portfolio list x)) \<and>
     kept_or_armed (now x) (error_channel x) (error_channel (handleCalculate calc x)) \<and>
     kept_or_armed (now y) (ticker_channel y) (ticker_channel (fetchItems_Home list y)) \<and>
     kept_or_armed (now y) (ticker_channel y)
       (ticker_channel (handleTickerSubmit res list y)) \<and>
     kept_or_armed (now y) (ticker_channel y) (ticker_channel (handleDelete i res list y)) \<and>
     kept_or_armed (now y) (portfolio_channel y)
       (portfolio_channel (fetchPortfolioValue_Home pv y)) \<and>
     kept_or_armed (now y) (portfolio_channel y)
       (portfolio_channel (handlePortfolioSubmit res y))"
proof -
  note step = show_channel pending_show
  note two = step expire_def after_second_def
  have any_a: "error_channel
       (elapse run_Portfolio d
          (showErrorMessage M2 (elapse run_Portfolio 500 (showErrorMessage M1 x))))
       = expire (now x + 500 + d)
           (M2, filter (\<lambda>deadline. \<not> deadline \<le> now x + 500) (pending ClearErrorMessage x)
                  @ [now x + 2000, now x + 2500])"
    by (simp add: elapse_Portfolio_channel elapse_Portfolio_page pending_elapse_Portfolio step
          add.commute)
  have any_t: "ticker_channel
       (elapse run_Home d
          (showTickerError M2 (elapse run_Home 500 (showTickerError M1 y))))
       = expire (now y + 500 + d)
           (M2, filter (\<lambda>deadline. \<not> deadline \<le> now y + 500) (pending ClearTickerError y)
                  @ [now y + 2000, now y + 2500])"
    by (simp add: elapse_Home_channel elapse_Home_timers pending_elapse_Home step add.commute)
  have any_p: "portfolio_channel
       (elapse run_Home d
          (showPortfolioError M2 (elapse run_Home 500 (showPortfolioError M1 y))))
       = expire (now y + 500 + d)
           (M2, filter (\<lambda>deadline. \<not> deadline \<le> now y + 500) (pending ClearPortfolioError y)
                  @ [now y + 2000, now y + 2500])"
    by (simp add: elapse_Home_channel elapse_Home_timers pending_elapse_Home step add.commute)
  have shown_a: "error_channel
       (elapse run_Portfolio d
          (showErrorMessage M2 (elapse run_Portfolio 500 (showErrorMessage M1 z))))
       = after_second (now z) M2 d" if "pending ClearErrorMessage z = []" for z M1 M2
    using that
    by (simp add: elapse_Portfolio_channel elapse_Portfolio_page pending_elapse_Portfolio two)
  have shown_t: "ticker_channel
       (elapse run_Home d
          (showTickerError M2 (elapse run_Home 500 (showTickerError M1 z))))
       = after_second (now z) M2 d" if "pending ClearTickerError z = []" for z M1 M2
    using that
    by (simp add: elapse_Home_channel elapse_Home_timers pending_elapse_Home two)
  have shown_p: "portfolio_channel
       (elapse run_Home d
          (showPortfolioError M2 (elapse run_Home 500 (showPortfolioError M1 z))))
       = after_second (now z) M2 d" if "pending ClearPortfolioError z = []" for z M1 M2
    using that
    by (simp add: elapse_Home_channel elapse_Home_timers pending_elapse_Home two)
  let ?s0 = "fetch (PostCalculatePortfolio (portfolioValue s) (map ticker (items s))) s"
  have calc: "error_channel
       (elapse run_Portfolio d
          (handleCalculate (Rejected M2)
             (elapse run_Portfolio 500 (handleCalculate (Rejected M1) s))))
       = after_second (now s) M2 d"
  proof -
    let ?s1 = "elapse run_Portfolio 500 (showErrorMessage M1 ?s0)"
    have guard: "portfolioValue ?s1 \<noteq> JNull" "items ?s1 \<noteq> []"
      using assms(5,6) by (simp_all add: elapse_Portfolio_page show_defs)
    have "error_channel
            (elapse run_Portfolio d
               (showErrorMessage M2
                  (fetch (PostCalculatePortfolio (portfolioValue ?s1) (map ticker (items ?s1)))
                     ?s1)))
            = after_second (now s) M2 d"
      using assms(4)
      by (simp add: elapse_Portfolio_channel elapse_Portfolio_page pending_elapse_Portfolio two)
    then show ?thesis
      by (simp only: handleCalculate_Rejected [OF assms(5,6)] handleCalculate_Rejected [OF guard])
  qed
  have del: "ticker_channel
       (elapse run_Home d
          (handleDelete i (Rejected m) list
             (elapse run_Home 500 (handleTickerSubmit res list' h))))
       = after_second (now h) ''Error deleting item'' d"
    using assms(7)
    by (simp add: handleTickerSubmit_not_valid [OF assms(8)] handleDelete_Rejected
          elapse_Home_channel elapse_Home_timers pending_elapse_Home two)
  have refetch: "portfolio_channel
       (elapse run_Home d
          (fetchPortfolioValue_Home (Rejected m')
             (elapse run_Home 500 (handlePortfolioSubmit res' g))))
       = after_second (now g) ''Error fetching portfolio value'' d"
    using assms(9)
    by (simp add: handlePortfolioSubmit_not_valid [OF assms(10)]
          fetchPortfolioValue_Home_Rejected
          elapse_Home_channel elapse_Home_timers pending_elapse_Home two)
  show ?thesis
    by (simp only: any_a any_t any_p
          shown_a [OF assms(1)] shown_t [OF assms(2)] shown_p [OF assms(3)]
          calc del refetch kept_or_armed_Portfolio kept_or_armed_Home_ticker
          kept_or_armed_Home_portfolio simp_thms)
qed

theorem notification_expiry_not_cancelled_witness:
  "error_channel
     (elapse run_Portfolio 1499
        (handleCalculate (Rejected ''Load failed'')
           (elapse run_Portfolio 500
              (handleCalculate (Rejected ''Failed to fetch'')
                 ((Portfolio 7)\<lparr>items := [\<lparr>item_id = 1, ticker = ''AAPL''\<rparr>],
                                   portfolioValue := JNum (Fin 10000)\<rparr>)))))
     = (''Load failed'', [2007, 2507]) \<and>
   error_channel
     (elapse run_Portfolio 1500
        (handleCalculate (Rejected ''Load failed'')
           (elapse run_Portfolio 500
              (handleCalculate (Rejected ''Failed to fetch'')
                 ((Portfolio 7)\<lparr>items := [\<lparr>item_id = 1, ticker = ''AAPL''\<rparr>],
                                   portfolioValue := JNum (Fin 10000)\<rparr>)))))
     = ('''', [2507]) \<and>
   ticker_channel
     (elapse run_Home 1500
        (handleDelete 1 (Rejected ''down'') (Rejected ''down'')
           (elapse run_Home 500
              (handleTickerSubmit (Rejected ''down'') (Rejected ''down'')
                 ((Home 7)\<lparr>tickerInput := ''aapl''\<rparr>)))))
     = ('''', [2507]) \<and>
   portfolio_channel
     (elapse run_Home 1500
        (showPortfolioError ''second''
           (elapse run_Home 500 (showPortfolioError ''first'' (Home 7)))))
     = ('''', [2507]) \<and>
   portfolio_channel
     (elapse run_Home 2000
        (fetchPortfolioValue_Home (Rejected ''down'')
           (elapse run_Home 500
              (handlePortfolioSubmit (Rejected ''down'')
                 ((Home 7)\<lparr>portfolioValue_input := ''-5''\<rparr>)))))
     = ('''', [])"
proof -
  let ?s = "(Portfolio 7)\<lparr>items := [\<lparr>item_id = 1, ticker = ''AAPL''\<rparr>],
                            portfolioValue := JNum (Fin 10000)\<rparr>"
  let ?h = "(Home 7)\<lparr>tickerInput := ''aapl''\<rparr>"
  let ?g = "(Home 7)\<lparr>portfolioValue_input := ''-5''\<rparr>"
  have hyps: "pending ClearErrorMessage (Portfolio 7) = []"
    "pending ClearTickerError (Home 7) = []"
    "pending ClearPortfolioError (Home 7) = []"
    "pending ClearErrorMessage ?s = []" "portfolioValue ?s \<noteq> JNull" "items ?s \<noteq> []"
    "pending ClearTickerError ?h = []" "\<not> validateStockTicker (tickerInput ?h)"
    "pending ClearPortfolioError ?g = []"
    "\<not> validatePositiveNumber (portfolioValue_input ?g)"
    by (simp_all add: pending_def Portfolio_def Home_def validateStockTicker_def
          validatePositiveNumber_def Number_eval)
  note calc = notification_expiry_not_cancelled
    [OF hyps, where ?M1.0 = "''Failed to fetch''" and ?M2.0 = "''Load failed''"
       and x = "Portfolio 7" and y = "Home 7" and i = 1 and m = "''down''" and m' = "''down''"
       and list = "Rejected ''down''" and list' = "Rejected ''down''"
       and res = "Rejected ''down''" and res' = "Rejected ''down''"
       and pv = "Rejected ''down''" and calc = "Rejected ''down''"]
  note shown = notification_expiry_not_cancelled
    [OF hyps, where ?M1.0 = "''first''" and ?M2.0 = "''second''"
       and x = "Portfolio 7" and y = "Home 7" and i = 1 and m = "''down''" and m' = "''down''"
       and list = "Rejected ''down''" and list' = "Rejected ''down''"
       and res = "Rejected ''down''" and res' = "Rejected ''down''"
       and pv = "Rejected ''down''" and calc = "Rejected ''down''"]
  have "error_channel
          (elapse run_Portfolio 1499
             (handleCalculate (Rejected ''Load failed'')
                (elapse run_Portfolio 500 (handleCalculate (Rejected ''Failed to fetch'') ?s))))
          = after_second (now ?s) ''Load failed'' 1499"
    using calc [where d = 1499] by blast
  moreover have "error_channel
          (elapse run_Portfolio 1500
             (handleCalculate (Rejected ''Load failed'')
                (elapse run_Portfolio 500 (handleCalculate (Rejected ''Failed to fetch'') ?s))))
          = after_second (now ?s) ''Load failed'' 1500"
    using calc [where d = 1500] by blast
  moreover have "ticker_channel
          (elapse run_Home 1500
             (handleDelete 1 (Rejected ''down'') (Rejected ''down'')
                (elapse run_Home 500
                   (handleTickerSubmit (Rejected ''down'') (Rejected ''down'') ?h))))
          = after_second (now ?h) ''Error deleting item'' 1500"
    using calc [where d = 1500] by blast
  moreover have "portfolio_channel
          (elapse run_Home 1500
             (showPortfolioError ''second''
                (elapse run_Home 500 (showPortfolioError ''first'' (Home 7)))))
          = after_second (now (Home 7)) ''second'' 1500"
    using shown [where d = 1500] by blast
  moreover have "portfolio_channel
          (elapse run_Home 2000
             (fetchPortfolioValue_Home (Rejected ''down'')
                (elapse run_Home 500 (handlePortfolioSubmit (Rejected ''down'') ?g))))
          = after_second (now ?g) ''Error fetching portfolio value'' 2000"
    using shown [where d = 2000] by blast
  moreover have "now ?s = 7" "now ?h = 7" "now ?g = 7" "now (Home 7) = 7"
    by (simp_all add: Portfolio_def Home_def)
  ultimately show ?thesis
    by (simp add: after_second_def)
qed

subsection \<open>C2: deleting a ticker\<close>

text \<open>
  C2 says that \<open>handleDelete\<close> fetches the list again after a failed delete as well, so
  that the page never keeps an item the server no longer lists. The code fetches the list
  in the ok branch only. Here the page shows item 1, the server no longer has it (a list
  request would answer with the empty array) and answers the delete with a status that
  is not ok: the only request made is the delete, and item 1 stays on the page.
\<close>

theorem failed_delete_keeps_stale_item:
  "items (handleDelete 1 (NotOk (Inr JNull)) (Ok (Inr []))
            ((Home 0)\<lparr>items := [\<lparr>item_id = 1, ticker = ''AAPL''\<rparr>]\<rparr>))
     = [\<lparr>item_id = 1, ticker = ''AAPL''\<rparr>] \<and>
   requests (handleDelete 1 (NotOk (Inr JNull)) (Ok (Inr []))
            ((Home 0)\<lparr>items := [\<lparr>item_id = 1, ticker = ''AAPL''\<rparr>]\<rparr>))
     = [DeleteItems 1]"
  by (simp add: handleDelete_def show_defs Home_def)

text \<open>
  C2, as the code has it: after an ok response to the delete, \<open>handleDelete\<close> requests
  the list, and a list that arrives replaces the items, with no notification. After any
  other outcome (a response that is not ok, a rejected request, an error body that does
  not parse) it makes no further request, leaves the items as they were and shows a
  notification on the ticker channel: \<open>Failed to delete item\<close> when the error body
  parsed, \<open>Error deleting item\<close> otherwise.
\<close>

theorem handleDelete_refetches_after_ok_only:
  "items (handleDelete i (Ok body) (Ok (Inr data)) s) = data \<and>
   tickerError (handleDelete i (Ok body) (Ok (Inr data)) s) = tickerError s \<and>
   requests (handleDelete i (Ok body) list s) = requests s @ [DeleteItems i, GetItems] \<and>
   ((\<forall>body. res \<noteq> Ok body) \<longrightarrow>
      items (handleDelete i res list s) = items s \<and>
      requests (handleDelete i res list s) = requests s @ [DeleteItems i] \<and>
      tickerError (handleDelete i res list s) =
        (if \<exists>errorData. res = NotOk (Inr errorData) then ''Failed to delete item''
         else ''Error deleting item'') \<and>
      timers (handleDelete i res list s) = timers s @ [(now s + 2000, ClearTickerError)])"
proof -
  have ok: "handleDelete i (Ok body) list s = fetchItems_Home list (fetch (DeleteItems i) s)"
    for list
    by (simp add: handleDelete_def Let_def)
  have "items (handleDelete i (Ok body) (Ok (Inr data)) s) = data"
    and "tickerError (handleDelete i (Ok body) (Ok (Inr data)) s) = tickerError s"
    by (simp_all add: ok fetchItems_Home_def show_defs)
  moreover have "requests (handleDelete i (Ok body) list s) = requests s @ [DeleteItems i, GetItems]"
    by (simp add: ok fetchItems_Home_def show_defs split: fetch_result.split sum.split)
  moreover have "(\<forall>body. res \<noteq> Ok body) \<longrightarrow>
      items (handleDelete i res list s) = items s \<and>
      requests (handleDelete i res list s) = requests s @ [DeleteItems i] \<and>
      tickerError (handleDelete i res list s) =
        (if \<exists>errorData. res = NotOk (Inr errorData) then ''Failed to delete item''
         else ''Error deleting item'') \<and>
      timers (handleDelete i res list s) = timers s @ [(now s + 2000, ClearTickerError)]"
  proof (cases res)
    case (Rejected msg)
    then show ?thesis by (simp add: handleDelete_def show_defs)
  next
    case (NotOk b)
    then show ?thesis by (cases b) (simp_all add: handleDelete_def show_defs)
  next
    case (Ok b)
    then show ?thesis by simp
  qed
  ultimately show ?thesis by blast
qed

theorem handleDelete_refetches_after_ok_only_witness:
  "items (handleDelete 1 (Ok (Inr JNull)) (Ok (Inr []))
            ((Home 0)\<lparr>items := [\<lparr>item_id = 1, ticker = ''AAPL''\<rparr>]\<rparr>)) = [] \<and>
   requests (handleDelete 1 (Ok (Inr JNull)) (Ok (Inr []))
            ((Home 0)\<lparr>items := [\<lparr>item_id = 1, ticker = ''AAPL''\<rparr>]\<rparr>))
     = [DeleteItems 1, GetItems] \<and>
   items (handleDelete 1 (Rejected ''Failed to fetch'') (Ok (Inr []))
            ((Home 0)\<lparr>items := [\<lparr>item_id = 1, ticker = ''AAPL''\<rparr>]\<rparr>))
     = [\<lparr>item_id = 1, ticker = ''AAPL''\<rparr>] \<and>
   tickerError (handleDelete 1 (Rejected ''Failed to fetch'') (Ok (Inr []))
            ((Home 0)\<lparr>items := [\<lparr>item_id = 1, ticker = ''AAPL''\<rparr>]\<rparr>))
     = ''Error deleting item''"
  using handleDelete_refetches_after_ok_only
    [of 1 "Inr JNull" "[]" "(Home 0)\<lparr>items := [\<lparr>item_id = 1, ticker = ''AAPL''\<rparr>]\<rparr>"
        "Ok (Inr [])" "Rejected ''Failed to fetch''"]
  by (simp add: Home_def)

subsection \<open>C3: \<open>validatePositiveNumber\<close>\<close>

text \<open>
  C3 says that \<open>validatePositiveNumber\<close> accepts a string only when it parses as a
  finite number. The code tests \<open>!isNaN(num) && num > 0\<close> and has no test of
  finiteness: \<open>Number("Infinity")\<close> is positive infinity, which is not NaN and is greater
  than zero, so the string \<open>Infinity\<close> is accepted.
\<close>

theorem validatePositiveNumber_accepts_Infinity:
  "validatePositiveNumber ''Infinity'' \<and> \<not> isFinite (Number ''Infinity'')"
  by (simp add: validatePositiveNumber_def Number_eval)

text \<open>
  C3, as the code has it: \<open>validatePositiveNumber s\<close> is true if and only if
  \<open>Number(s)\<close> is positive infinity or a finite number greater than zero. So it accepts
  \<open>1\<close>, \<open>0.01\<close> and \<open>1000000\<close>, and also \<open>Infinity\<close> and a literal that overflows
  such as \<open>1e999\<close>; it rejects \<open>0\<close>, \<open>-5\<close>, the empty string (which parses as 0),
  \<open>abc\<close>, \<open>NaN\<close> and \<open>-Infinity\<close>.
\<close>

theorem validatePositiveNumber_iff:
  "(validatePositiveNumber s \<longleftrightarrow> Number s = PosInf \<or> (\<exists>v. Number s = Fin v \<and> 0 < v)) \<and>
   validatePositiveNumber ''1'' \<and> validatePositiveNumber ''0.01'' \<and>
   validatePositiveNumber ''1000000'' \<and> validatePositiveNumber ''1e999'' \<and>
   \<not> validatePositiveNumber ''0'' \<and> \<not> validatePositiveNumber ''-5'' \<and>
   \<not> validatePositiveNumber '''' \<and> \<not> validatePositiveNumber ''abc'' \<and>
   \<not> validatePositiveNumber ''NaN'' \<and> \<not> validatePositiveNumber ''-Infinity''"
proof -
  have "validatePositiveNumber s \<longleftrightarrow> Number s = PosInf \<or> (\<exists>v. Number s = Fin v \<and> 0 < v)"
    by (cases "Number s") (simp_all add: validatePositiveNumber_def)
  moreover have "validatePositiveNumber ''1''" "validatePositiveNumber ''0.01''"
    "validatePositiveNumber ''1000000''" "validatePositiveNumber ''1e999''"
    by (simp_all add: validatePositiveNumber_def Number_eval)
  moreover have "\<not> validatePositiveNumber ''0''" "\<not> validatePositiveNumber ''-5''"
    "\<not> validatePositiveNumber ''''" "\<not> validatePositiveNumber ''abc''"
    "\<not> validatePositiveNumber ''NaN''" "\<not> validatePositiveNumber ''-Infinity''"
    by (simp_all add: validatePositiveNumber_def Number_eval)
  ultimately show ?thesis by blast
qed

theorem validatePositiveNumber_iff_witness:
  "Number ''1.25e2'' = Fin 125 \<and> validatePositiveNumber ''1.25e2'' \<and>
   Number '' -0x1F '' = NaN \<and> \<not> validatePositiveNumber '' -0x1F ''"
proof -
  have n: "Number ''1.25e2'' = Fin 125" "Number '' -0x1F '' = NaN"
    by (simp_all add: Number_eval)
  show ?thesis
    using validatePositiveNumber_iff [of "''1.25e2''"]
      validatePositiveNumber_iff [of "'' -0x1F ''"]
    by (simp add: n)
qed

subsection \<open>C4: the channels of the two pages\<close>

text \<open>
  C4 says that, for every operation, an error of the ticker workflow and an error of the
  portfolio-value workflow never touch each other's message or pending expiry. On the
  allocation page both workflows show their errors in the one \<open>errorMessage\<close>. Here the
  fetch of the portfolio value fails at time 0 and the fetch of the items at time 300:
  the message of the first error is still displayed at time 300, the second error
  replaces it, and at time 2000 the timer of the first error clears the message of the
  second, 300 ms early.
\<close>

theorem allocation_page_errors_share_errorMessage:
  "errorMessage
     (elapse run_Portfolio 300
        (fetchPortfolioValue_Portfolio (Rejected ''Failed to fetch'') (Portfolio 0)))
     = ''Error fetching portfolio value'' \<and>
   errorMessage
     (fetchItems_Portfolio (Rejected ''Failed to fetch'')
        (elapse run_Portfolio 300
           (fetchPortfolioValue_Portfolio (Rejected ''Failed to fetch'') (Portfolio 0))))
     = ''Error fetching items'' \<and>
   errorMessage
     (elapse run_Portfolio 1700
        (fetchItems_Portfolio (Rejected ''Failed to fetch'')
           (elapse run_Portfolio 300
              (fetchPortfolioValue_Portfolio (Rejected ''Failed to fetch'') (Portfolio 0)))))
     = ''''"
  by (simp add: elapse_def fetchItems_Portfolio_def fetchPortfolioValue_Portfolio_def
        show_defs Portfolio_def)

text \<open>
  C4, as the code has it: on the configuration page the ticker-error and the
  portfolio-error channel are independent. Every operation of the ticker workflow
  (showing a ticker error, \<open>fetchItems\<close>, \<open>handleTickerSubmit\<close>, \<open>handleDelete\<close>, the
  timer callback that clears the ticker error) leaves the message of the portfolio
  channel and its pending expiries unchanged, whatever the outcome of its requests; every
  operation of the portfolio workflow (showing a portfolio error, \<open>fetchPortfolioValue\<close>,
  \<open>handlePortfolioSubmit\<close>, the callback that clears the portfolio error) leaves the
  ticker channel unchanged; and as time passes each channel changes by its own timers
  alone. (The allocation page has neither channel: all its errors share \<open>errorMessage\<close>.)
\<close>

theorem Home_channels_independent:
  "portfolio_channel (showTickerError m s) = portfolio_channel s \<and>
   portfolio_channel (fetchItems_Home list s) = portfolio_channel s \<and>
   portfolio_channel (handleTickerSubmit res list s) = portfolio_channel s \<and>
   portfolio_channel (handleDelete i res list s) = portfolio_channel s \<and>
   portfolio_channel (run_Home ClearTickerError s) = portfolio_channel s \<and>
   ticker_channel (showPortfolioError m s) = ticker_channel s \<and>
   ticker_channel (fetchPortfolioValue_Home res s) = ticker_channel s \<and>
   ticker_channel (handlePortfolioSubmit res s) = ticker_channel s \<and>
   ticker_channel (run_Home ClearPortfolioError s) = ticker_channel s \<and>
   portfolio_channel (elapse run_Home d s) = expire (now s + d) (portfolio_channel s) \<and>
   ticker_channel (elapse run_Home d s) = expire (now s + d) (ticker_channel s)"
  by (simp add: elapse_Home_channel run_Home_frame del: run_Home.simps)

theorem Home_channels_independent_witness:
  "portfolio_channel
     (handleDelete 1 (Rejected ''down'') (Rejected ''down'')
        (showPortfolioError ''Portfolio value must be a positive number'' (Home 0)))
   = (''Portfolio value must be a positive number'', [2000]) \<and>
   portfolio_channel
     (elapse run_Home 1999
        (handleDelete 1 (Rejected ''down'') (Rejected ''down'')
           (showPortfolioError ''Portfolio value must be a positive number'' (Home 0))))
   = (''Portfolio value must be a positive number'', [2000])"
proof -
  let ?s = "showPortfolioError ''Portfolio value must be a positive number'' (Home 0)"
  let ?s' = "handleDelete 1 (Rejected ''down'') (Rejected ''down'') ?s"
  have s: "portfolio_channel ?s = (''Portfolio value must be a positive number'', [2000])"
    by (simp add: channel_defs show_defs Home_def)
  have n: "now ?s' = 0"
    by (simp add: handleDelete_def show_defs Home_def)
  have same: "portfolio_channel ?s' = portfolio_channel ?s"
    using Home_channels_independent [of "''x''" ?s "Rejected ''down''" "Rejected ''down''" 1 0]
    by simp
  have later: "portfolio_channel (elapse run_Home 1999 ?s') = expire (now ?s' + 1999) (portfolio_channel ?s')"
    using Home_channels_independent [of "''x''" ?s' "Rejected ''down''" "Rejected ''down''" 1 1999]
    by simp
  show ?thesis
    unfolding later same s n by (simp add: expire_def)
qed

subsection \<open>C5: the guard of \<open>handleCalculate\<close>\<close>

text \<open>
  C5: when the portfolio value is \<open>null\<close> or the list of items is empty,
  \<open>handleCalculate\<close> makes no request, shows the notification
  \<open>Ensure portfolio value and stock tickers are set.\<close> (with its timer of 2000 ms) and
  leaves the items, the portfolio value and the allocation results as they were.
\<close>

theorem handleCalculate_guard:
  assumes "portfolioValue s = JNull \<or> items s = []"
  shows "requests (handleCalculate res s) = requests s \<and>
         errorMessage (handleCalculate res s) =
           ''Ensure portfolio value and stock tickers are set.'' \<and>
         timers (handleCalculate res s) = timers s @ [(now s + 2000, ClearErrorMessage)] \<and>
         items (handleCalculate res s) = items s \<and>
         portfolioValue (handleCalculate res s) = portfolioValue s \<and>
         allocationResults (handleCalculate res s) = allocationResults s"
  using assms by (auto simp add: handleCalculate_def show_defs)

theorem handleCalculate_guard_witness:
  "requests (handleCalculate (Ok (Inr (JStr ''unused'')))
               ((Portfolio 0)\<lparr>items := [\<lparr>item_id = 1, ticker = ''AAPL''\<rparr>]\<rparr>)) = [] \<and>
   errorMessage (handleCalculate (Ok (Inr (JStr ''unused'')))
               ((Portfolio 0)\<lparr>items := [\<lparr>item_id = 1, ticker = ''AAPL''\<rparr>]\<rparr>))
     = ''Ensure portfolio value and stock tickers are set.'' \<and>
   requests (handleCalculate (Ok (Inr (JStr ''unused'')))
               ((Portfolio 0)\<lparr>portfolioValue := JNum (Fin 10000)\<rparr>)) = [] \<and>
   allocationResults (handleCalculate (Ok (Inr (JStr ''unused'')))
               ((Portfolio 0)\<lparr>portfolioValue := JNum (Fin 10000)\<rparr>)) = JNull"
  using handleCalculate_guard
      [of "(Portfolio 0)\<lparr>items := [\<lparr>item_id = 1, ticker = ''AAPL''\<rparr>]\<rparr>"
          "Ok (Inr (JStr ''unused''))"]
    handleCalculate_guard
      [of "(Portfolio 0)\<lparr>portfolioValue := JNum (Fin 10000)\<rparr>" "Ok (Inr (JStr ''unused''))"]
  by (simp add: Portfolio_def)

subsection \<open>C6: a computation that succeeds\<close>

text \<open>
  C6: when the portfolio value is not \<open>null\<close>, the list of items is not empty and the
  compute call answers ok with a body \<open>data\<close>, the allocation results become exactly
  \<open>data\<close>, whatever was stored before. One request is made, with the portfolio value
  and the tickers of the items, and no notification is shown.
\<close>

theorem handleCalculate_success:
  assumes "portfolioValue s \<noteq> JNull" and "items s \<noteq> []"
  shows "allocationResults (handleCalculate (Ok (Inr data)) s) = data \<and>
         requests (handleCalculate (Ok (Inr data)) s) =
           requests s @ [PostCalculatePortfolio (portfolioValue s) (map ticker (items s))] \<and>
         errorMessage (handleCalculate (Ok (Inr data)) s) = errorMessage s \<and>
         timers (handleCalculate (Ok (Inr data)) s) = timers s"
  using assms by (simp add: handleCalculate_def show_defs)

theorem handleCalculate_success_witness:
  "allocationResults
     (handleCalculate
        (Ok (Inr (JObj
           [(''Weights'', JObj [(''AAPL'', JNum (Fin (3 / 5))), (''MSFT'', JNum (Fin (2 / 5)))]),
            (''Shares to Purchase'', JObj [(''AAPL'', JNum (Fin 10)), (''MSFT'', JNum (Fin 5))]),
            (''Expected Performance'',
               JObj [(''Expected Annual Return'', JNum (Fin (3 / 25))),
                     (''Annual Volatility'', JNum (Fin (1 / 5))),
                     (''Sharpe Ratio'', JNum (Fin (3 / 5)))]),
            (''Remaining Budget'', JNum (Fin (2469 / 20)))])))
        ((Portfolio 0)\<lparr>items := [\<lparr>item_id = 1, ticker = ''AAPL''\<rparr>,
                                    \<lparr>item_id = 2, ticker = ''MSFT''\<rparr>],
                          portfolioValue := JNum (Fin 10000),
                          allocationResults := JStr ''previous''\<rparr>))
   = JObj
       [(''Weights'', JObj [(''AAPL'', JNum (Fin (3 / 5))), (''MSFT'', JNum (Fin (2 / 5)))]),
        (''Shares to Purchase'', JObj [(''AAPL'', JNum (Fin 10)), (''MSFT'', JNum (Fin 5))]),
        (''Expected Performance'',
           JObj [(''Expected Annual Return'', JNum (Fin (3 / 25))),
                 (''Annual Volatility'', JNum (Fin (1 / 5))),
                 (''Sharpe Ratio'', JNum (Fin (3 / 5)))]),
        (''Remaining Budget'', JNum (Fin (2469 / 20)))]"
proof -
  let ?s = "(Portfolio 0)\<lparr>items := [\<lparr>item_id = 1, ticker = ''AAPL''\<rparr>,
                                       \<lparr>item_id = 2, ticker = ''MSFT''\<rparr>],
                             portfolioValue := JNum (Fin 10000),
                             allocationResults := JStr ''previous''\<rparr>"
  have hyps: "portfolioValue ?s \<noteq> JNull" "items ?s \<noteq> []"
    by (simp_all add: Portfolio_def)
  show ?thesis
    using handleCalculate_success [OF hyps] by blast
qed

subsection \<open>C7: a computation that fails\<close>

text \<open>
  C7: when the guard passes and the compute call fails, the allocation results stay as
  they were and a notification is shown (with its timer of 2000 ms). Its message is the
  \<open>error\<close> member of the body of a response that is not ok, when that member is there
  and not empty; \<open>Failed to calculate portfolio\<close> when it is absent or empty; and the
  message of the error thrown when the request was rejected or a body did not parse.
\<close>

theorem handleCalculate_failure:
  assumes "portfolioValue s \<noteq> JNull" and "items s \<noteq> []"
  shows "(e \<noteq> '''' \<longrightarrow> errorMessage (handleCalculate (NotOk (Inr (Some e))) s) = e) \<and>
         errorMessage (handleCalculate (NotOk (Inr (Some ''''))) s) =
           ''Failed to calculate portfolio'' \<and>
         errorMessage (handleCalculate (NotOk (Inr None)) s) =
           ''Failed to calculate portfolio'' \<and>
         errorMessage (handleCalculate (NotOk (Inl m)) s) = m \<and>
         errorMessage (handleCalculate (Rejected m) s) = m \<and>
         errorMessage (handleCalculate (Ok (Inl m)) s) = m \<and>
         ((\<forall>data. res \<noteq> Ok (Inr data)) \<longrightarrow>
            allocationResults (handleCalculate res s) = allocationResults s \<and>
            timers (handleCalculate res s) = timers s @ [(now s + 2000, ClearErrorMessage)])"
  using assms
  by (auto simp add: handleCalculate_def show_defs
        split: fetch_result.splits sum.splits option.splits)

theorem handleCalculate_failure_witness:
  "errorMessage
     (handleCalculate (NotOk (Inr (Some ''Budget too small'')))
        ((Portfolio 0)\<lparr>items := [\<lparr>item_id = 1, ticker = ''AAPL''\<rparr>],
                          portfolioValue := JNum (Fin 1),
                          allocationResults := JStr ''previous''\<rparr>)) = ''Budget too small'' \<and>
   allocationResults
     (handleCalculate (NotOk (Inr (Some ''Budget too small'')))
        ((Portfolio 0)\<lparr>items := [\<lparr>item_id = 1, ticker = ''AAPL''\<rparr>],
                          portfolioValue := JNum (Fin 1),
                          allocationResults := JStr ''previous''\<rparr>)) = JStr ''previous''"
proof -
  let ?s = "(Portfolio 0)\<lparr>items := [\<lparr>item_id = 1, ticker = ''AAPL''\<rparr>],
                             portfolioValue := JNum (Fin 1),
                             allocationResults := JStr ''previous''\<rparr>"
  have hyps: "portfolioValue ?s \<noteq> JNull" "items ?s \<noteq> []"
    by (simp_all add: Portfolio_def)
  show ?thesis
    using handleCalculate_failure
      [OF hyps, of "''Budget too small''" "''x''" "NotOk (Inr (Some ''Budget too small''))"]
    by (simp add: Portfolio_def)
qed

subsection \<open>C8: a ticker that fails validation\<close>

text \<open>
  C8: when the ticker input fails \<open>validateStockTicker\<close>, \<open>handleTickerSubmit\<close> shows
  \<open>Must put in a valid stock ticker (1-5 uppercase letters)\<close> on the ticker channel
  (with its timer of 2000 ms) and returns: no request is made, and the items and the
  input are as they were.
\<close>

theorem handleTickerSubmit_invalid:
  assumes "\<not> validateStockTicker (tickerInput s)"
  shows "tickerError (handleTickerSubmit res list s) =
           ''Must put in a valid stock ticker (1-5 uppercase letters)'' \<and>
         timers (handleTickerSubmit res list s) = timers s @ [(now s + 2000, ClearTickerError)] \<and>
         requests (handleTickerSubmit res list s) = requests s \<and>
         items (handleTickerSubmit res list s) = items s \<and>
         tickerInput (handleTickerSubmit res list s) = tickerInput s"
  using assms by (simp add: handleTickerSubmit_def show_defs)

theorem handleTickerSubmit_invalid_witness:
  "tickerError (handleTickerSubmit (Ok (Inr JNull)) (Ok (Inr []))
                  ((Home 0)\<lparr>tickerInput := ''ABCDEF''\<rparr>))
     = ''Must put in a valid stock ticker (1-5 uppercase letters)'' \<and>
   requests (handleTickerSubmit (Ok (Inr JNull)) (Ok (Inr []))
                  ((Home 0)\<lparr>tickerInput := ''ABCDEF''\<rparr>)) = [] \<and>
   requests (handleTickerSubmit (Ok (Inr JNull)) (Ok (Inr []))
                  ((Home 0)\<lparr>tickerInput := ''AB1''\<rparr>)) = [] \<and>
   requests (handleTickerSubmit (Ok (Inr JNull)) (Ok (Inr []))
                  ((Home 0)\<lparr>tickerInput := ''''\<rparr>)) = []"
proof -
  have hyps: "\<not> validateStockTicker (tickerInput ((Home 0)\<lparr>tickerInput := ''ABCDEF''\<rparr>))"
    "\<not> validateStockTicker (tickerInput ((Home 0)\<lparr>tickerInput := ''AB1''\<rparr>))"
    "\<not> validateStockTicker (tickerInput ((Home 0)\<lparr>tickerInput := ''''\<rparr>))"
    by (simp_all add: validateStockTicker_def)
  show ?thesis
    using handleTickerSubmit_invalid [OF hyps(1), of "Ok (Inr JNull)" "Ok (Inr [])"]
      handleTickerSubmit_invalid [OF hyps(2), of "Ok (Inr JNull)" "Ok (Inr [])"]
      handleTickerSubmit_invalid [OF hyps(3), of "Ok (Inr JNull)" "Ok (Inr [])"]
    by (simp add: Home_def)
qed

subsection \<open>C9: a portfolio value that is accepted and stored\<close>

text \<open>
  C9: when the input passes \<open>validatePositiveNumber\<close> and the server answers ok,
  \<open>handlePortfolioSubmit\<close> sets the displayed portfolio value to the number
  \<open>Number(input)\<close> (not to the string), empties the input, and makes the one request
  that sends the value: the portfolio resource is not fetched again. No notification is
  shown.
\<close>

theorem handlePortfolioSubmit_success:
  assumes "validatePositiveNumber (portfolioValue_input s)"
  shows "displayedPortfolioValue (handlePortfolioSubmit (Ok body) s) =
           JNum (Number (portfolioValue_input s)) \<and>
         portfolioValue_input (handlePortfolioSubmit (Ok body) s) = '''' \<and>
         requests (handlePortfolioSubmit (Ok body) s) =
           requests s @ [PostPortfolio (Number (portfolioValue_input s))] \<and>
         portfolioError (handlePortfolioSubmit (Ok body) s) = portfolioError s \<and>
         timers (handlePortfolioSubmit (Ok body) s) = timers s"
  using assms by (simp add: handlePortfolioSubmit_def show_defs)

theorem handlePortfolioSubmit_success_witness:
  "displayedPortfolioValue
     (handlePortfolioSubmit (Ok (Inr JNull)) ((Home 0)\<lparr>portfolioValue_input := ''500''\<rparr>))
     = JNum (Fin 500) \<and>
   portfolioValue_input
     (handlePortfolioSubmit (Ok (Inr JNull)) ((Home 0)\<lparr>portfolioValue_input := ''500''\<rparr>))
     = '''' \<and>
   requests
     (handlePortfolioSubmit (Ok (Inr JNull)) ((Home 0)\<lparr>portfolioValue_input := ''500''\<rparr>))
     = [PostPortfolio (Fin 500)]"
proof -
  let ?s = "(Home 0)\<lparr>portfolioValue_input := ''500''\<rparr>"
  have n: "Number ''500'' = Fin 500"
    by (simp add: Number_eval)
  have hyp: "validatePositiveNumber (portfolioValue_input ?s)"
    by (simp add: validatePositiveNumber_def n)
  show ?thesis
    using handlePortfolioSubmit_success [OF hyp, of "Inr JNull"]
    by (simp add: n Home_def)
qed

subsection \<open>C10: only \<open>null\<close> is an absent portfolio value\<close>

text \<open>
  C10: the guard of \<open>handleCalculate\<close> compares the portfolio value with \<open>null\<close> and
  nothing else. Whatever value \<open>v\<close> other than \<open>null\<close> the portfolio resource
  returned, zero and negative numbers included, it is stored as the portfolio value, and
  with a list of items that is not empty \<open>handleCalculate\<close> then makes the compute
  request with \<open>v\<close> as its budget.
\<close>

theorem handleCalculate_sends_any_value_but_null:
  assumes "v \<noteq> JNull" and "items s \<noteq> []"
  shows "portfolioValue (fetchPortfolioValue_Portfolio (Ok (Inr v)) s) = v \<and>
         requests (handleCalculate res (fetchPortfolioValue_Portfolio (Ok (Inr v)) s)) =
           requests s @ [GetPortfolio, PostCalculatePortfolio v (map ticker (items s))]"
  using assms
  by (simp add: handleCalculate_def fetchPortfolioValue_Portfolio_def show_defs
        split: fetch_result.splits sum.splits option.splits)

theorem handleCalculate_sends_any_value_but_null_witness:
  "requests
     (handleCalculate (Rejected ''Failed to fetch'')
        (fetchPortfolioValue_Portfolio (Ok (Inr (JNum (Fin 0))))
           ((Portfolio 0)\<lparr>items := [\<lparr>item_id = 1, ticker = ''AAPL''\<rparr>]\<rparr>)))
     = [GetPortfolio, PostCalculatePortfolio (JNum (Fin 0)) [''AAPL'']] \<and>
   requests
     (handleCalculate (Rejected ''Failed to fetch'')
        (fetchPortfolioValue_Portfolio (Ok (Inr (JNum (Fin (- 5)))))
           ((Portfolio 0)\<lparr>items := [\<lparr>item_id = 1, ticker = ''AAPL''\<rparr>]\<rparr>)))
     = [GetPortfolio, PostCalculatePortfolio (JNum (Fin (- 5))) [''AAPL'']]"
proof -
  let ?s = "(Portfolio 0)\<lparr>items := [\<lparr>item_id = 1, ticker = ''AAPL''\<rparr>]\<rparr>"
  have hyps: "JNum (Fin 0) \<noteq> JNull" "JNum (Fin (- 5)) \<noteq> JNull" "items ?s \<noteq> []"
    by (simp_all add: Portfolio_def)
  show ?thesis
    using handleCalculate_sends_any_value_but_null
        [OF hyps(1) hyps(3), of "Rejected ''Failed to fetch''"]
      handleCalculate_sends_any_value_but_null
        [OF hyps(2) hyps(3), of "Rejected ''Failed to fetch''"]
    by (simp add: Portfolio_def)
qed

end
